theory Spec2Isabelle
  imports
    Main
    "HOL-Library.Multiset"
    "HOL-Library.Char_ord"
    "HOL-Library.List_Lexorder"
    "HOL-Library.Product_Lexorder"
begin

section \<open>Data models of \<^verbatim>\<open>main.py\<close>\<close>

text \<open>
  The pydantic models become records. Python's \<^verbatim>\<open>int\<close> is unbounded, so every integer
  field is an \<open>int\<close>. A \<^verbatim>\<open>str\<close> is a \<open>string\<close>; its order is the lexicographic order on
  characters, which is Python's order on the identifiers (UUIDs, ASCII).
  After \<^verbatim>\<open>offer.dict()\<close> an offer is a dictionary with exactly the fields of the model;
  the same record stands for both.
\<close>

record Offer =
  ID :: string
  data :: string
  mostSpecificRegionID :: int
  startDate :: int
  endDate :: int
  numberSeats :: int
  price :: int
  carType :: string
  hasVollkasko :: bool
  freeKilometers :: int

record SearchResultOffer =
  sr_ID :: string
  sr_data :: string

record PriceRange =
  pr_start :: int
  pr_end :: int
  pr_count :: int

record CarTypeCount =
  small :: int
  sports :: int
  luxury :: int
  family :: int

record SeatsCount =
  sc_numberSeats :: int
  sc_count :: int

record FreeKilometerRange =
  fk_start :: int
  fk_end :: int
  fk_count :: int

record VollkaskoCount =
  trueCount :: int
  falseCount :: int

record GetOffersResponse =
  offers :: "SearchResultOffer list"
  priceRanges :: "PriceRange list"
  carTypeCounts :: CarTypeCount
  seatsCount :: "SeatsCount list"
  freeKilometerRange :: "FreeKilometerRange list"
  vollkaskoCount :: VollkaskoCount

text \<open>What \<^verbatim>\<open>json.load\<close> returns for \<^verbatim>\<open>regions.json\<close> (numbers as integers).\<close>

datatype json =
  JNull
  | JBool bool
  | JNum int
  | JStr string
  | JArr "json list"
  | JObj "(string \<times> json) list"

text \<open>
  The module's global state: the in-memory database \<^verbatim>\<open>offers_db\<close> and \<^verbatim>\<open>regions_data\<close>,
  which is \<^verbatim>\<open>{}\<close> when the regions file does not exist.
\<close>

record state =
  offers_db :: "Offer list"
  regions_data :: json

definition initial_state :: "json option \<Rightarrow> state" where
  "initial_state regions_file =
     \<lparr>offers_db = [],
      regions_data = (case regions_file of Some j \<Rightarrow> j | None \<Rightarrow> JObj [])\<rparr>"

text \<open>
  The query parameters of \<^verbatim>\<open>GET /api/offers\<close>; an \<^verbatim>\<open>Optional\<close> one is an option. The
  declarations constrain \<^verbatim>\<open>sortOrder\<close> and \<^verbatim>\<open>carType\<close> by a regular expression and every
  other parameter by its type only: \<^verbatim>\<open>page\<close> and \<^verbatim>\<open>pageSize\<close> are any integers.
\<close>

record query =
  regionID :: int
  timeRangeStart :: int
  timeRangeEnd :: int
  numberDays :: int
  sortOrder :: string
  page :: int
  pageSize :: int
  priceRangeWidth :: int
  minFreeKilometerWidth :: int
  minNumberSeats :: "int option"
  minPrice :: "int option"
  maxPrice :: "int option"
  carType_param :: "string option"
  onlyVollkasko :: "bool option"
  minFreeKilometer :: "int option"

text \<open>The values of the two filter dictionaries.\<close>

datatype py_value = PyInt int | PyStr string | PyBool bool

type_synonym filters = "(string \<times> py_value) list"

section \<open>Helper functions\<close>

text \<open>\<^verbatim>\<open>matches_filters\<close>: the placeholder accepts all offers.\<close>

definition matches_filters :: "Offer \<Rightarrow> filters \<Rightarrow> filters \<Rightarrow> bool" where
  "matches_filters offer mandatory_filters optional_filters = True"

text \<open>\<^verbatim>\<open>compute_aggregations\<close>: the placeholder returns empty aggregations.\<close>

definition compute_aggregations ::
  "Offer list \<Rightarrow> int \<Rightarrow> int \<Rightarrow> filters \<Rightarrow> filters \<Rightarrow>
   PriceRange list \<times> CarTypeCount \<times> SeatsCount list \<times> FreeKilometerRange list \<times> VollkaskoCount"
where
  "compute_aggregations filtered_offers priceRangeWidth' minFreeKilometerWidth'
     mandatory_filters optional_filters =
     (let price_ranges = [];
          car_type_counts = \<lparr>small = 0, sports = 0, luxury = 0, family = 0\<rparr>;
          seats_counts = [];
          free_kilometer_ranges = [];
          vollkasko_counts = \<lparr>trueCount = 0, falseCount = 0\<rparr>
      in (price_ranges, car_type_counts, seats_counts, free_kilometer_ranges, vollkasko_counts))"

section \<open>Python's list operations\<close>

text \<open>
  \<^verbatim>\<open>xs[start:stop]\<close>: a negative index counts from the end, every index is clipped to
  \<open>0 .. len(xs)\<close>, and the slice is empty when the clipped start is not below the clipped
  stop. Slicing never raises.
\<close>

definition adjust_index :: "int \<Rightarrow> int \<Rightarrow> int" where
  "adjust_index n i = (if i < 0 then max 0 (i + n) else min i n)"

definition py_slice :: "'a list \<Rightarrow> int \<Rightarrow> int \<Rightarrow> 'a list" where
  "py_slice xs start stop =
     (let n = int (length xs);
          lo = adjust_index n start;
          hi = adjust_index n stop
      in take (nat (hi - lo)) (drop (nat lo) xs))"

text \<open>
  \<^verbatim>\<open>xs.sort(key=f, reverse=r)\<close>: a stable sort on the keys; with \<^verbatim>\<open>reverse=True\<close> the
  result is descending and elements with equal keys still keep their original order,
  which is the ascending stable sort of the reversed list, reversed.
\<close>

definition py_sort :: "('a \<Rightarrow> 'k::linorder) \<Rightarrow> bool \<Rightarrow> 'a list \<Rightarrow> 'a list" where
  "py_sort f reverse xs = (if reverse then rev (sort_key f (rev xs)) else sort_key f xs)"

section \<open>The endpoints\<close>

type_synonym status_message = "(string \<times> string) list"

text \<open>\<^verbatim>\<open>POST /api/offers\<close>: \<^verbatim>\<open>offers_db.extend(offer_dicts)\<close>.\<close>

definition create_offers :: "Offer list \<Rightarrow> state \<Rightarrow> status_message \<times> state" where
  "create_offers new_offers s =
     ([(''status'', ''success''), (''message'', ''Offers created successfully'')],
      s\<lparr>offers_db := offers_db s @ new_offers\<rparr>)"

text \<open>\<^verbatim>\<open>DELETE /api/offers\<close>: \<^verbatim>\<open>offers_db.clear()\<close>.\<close>

definition delete_offers :: "state \<Rightarrow> status_message \<times> state" where
  "delete_offers s =
     ([(''status'', ''success''), (''message'', ''All offers deleted'')],
      s\<lparr>offers_db := []\<rparr>)"

text \<open>\<^verbatim>\<open>GET /api/offers\<close>, statement by statement.\<close>

definition mandatory_filters_of :: "query \<Rightarrow> filters" where
  "mandatory_filters_of q =
     [(''regionID'', PyInt (regionID q)),
      (''timeRangeStart'', PyInt (timeRangeStart q)),
      (''timeRangeEnd'', PyInt (timeRangeEnd q)),
      (''numberDays'', PyInt (numberDays q))]"

text \<open>The optional filters, with the entries whose value is \<^verbatim>\<open>None\<close> removed.\<close>

definition optional_filters_of :: "query \<Rightarrow> filters" where
  "optional_filters_of q =
     List.map_filter (\<lambda>(k, v). map_option (Pair k) v)
       [(''minNumberSeats'', map_option PyInt (minNumberSeats q)),
        (''minPrice'', map_option PyInt (minPrice q)),
        (''maxPrice'', map_option PyInt (maxPrice q)),
        (''carType'', map_option PyStr (carType_param q)),
        (''onlyVollkasko'', map_option PyBool (onlyVollkasko q)),
        (''minFreeKilometer'', map_option PyInt (minFreeKilometer q))]"

text \<open>The list comprehension builds a new list; \<^verbatim>\<open>offers_db\<close> itself is only read.\<close>

definition filtered_offers :: "state \<Rightarrow> query \<Rightarrow> Offer list" where
  "filtered_offers s q =
     filter (\<lambda>offer. matches_filters offer (mandatory_filters_of q) (optional_filters_of q))
       (offers_db s)"

definition sort_key_of :: "Offer \<Rightarrow> int \<times> string" where
  "sort_key_of x = (price x, ID x)"

text \<open>\<^verbatim>\<open>filtered_offers\<close> after the in-place sort.\<close>

definition sorted_offers :: "state \<Rightarrow> query \<Rightarrow> Offer list" where
  "sorted_offers s q =
     (let reverse_sort = (if sortOrder q = ''price-desc'' then True else False)
      in py_sort sort_key_of reverse_sort (filtered_offers s q))"

definition paginated_offers :: "state \<Rightarrow> query \<Rightarrow> Offer list" where
  "paginated_offers s q =
     (let start_index = (page q - 1) * pageSize q;
          end_index = start_index + pageSize q
      in py_slice (sorted_offers s q) start_index end_index)"

definition search_result_offer :: "Offer \<Rightarrow> SearchResultOffer" where
  "search_result_offer offer = \<lparr>sr_ID = ID offer, sr_data = data offer\<rparr>"

text \<open>
  The handler returns the response; no statement of it assigns to \<^verbatim>\<open>offers_db\<close> or
  \<^verbatim>\<open>regions_data\<close> or mutates an offer, so the state it leaves is the state it found.
\<close>

definition get_offers :: "query \<Rightarrow> state \<Rightarrow> GetOffersResponse \<times> state" where
  "get_offers q s =
     (let search_result_offers = map search_result_offer (paginated_offers s q);
          (price_ranges, car_type_counts, seats_counts, free_kilometer_ranges, vollkasko_counts) =
            compute_aggregations (sorted_offers s q) (priceRangeWidth q)
              (minFreeKilometerWidth q) (mandatory_filters_of q) (optional_filters_of q)
      in (\<lparr>offers = search_result_offers,
           priceRanges = price_ranges,
           carTypeCounts = car_type_counts,
           seatsCount = seats_counts,
           freeKilometerRange = free_kilometer_ranges,
           vollkaskoCount = vollkasko_counts\<rparr>, s))"

section \<open>A small store and its queries\<close>

text \<open>
  Three offers. \<open>offer_a\<close> lies in region 5 and is available for ten days; \<open>offer_b\<close>
  has the same price and availability but lies in region 2; \<open>offer_c\<close> lies in region 5,
  is cheaper and is available for two days only.
\<close>

definition offer_a :: Offer where
  "offer_a = \<lparr>ID = ''a'', data = ''AAAA'', mostSpecificRegionID = 5, startDate = 0,
     endDate = 864000000, numberSeats = 4, price = 1000, carType = ''small'',
     hasVollkasko = True, freeKilometers = 100\<rparr>"

definition offer_b :: Offer where
  "offer_b = \<lparr>ID = ''b'', data = ''BBBB'', mostSpecificRegionID = 2, startDate = 0,
     endDate = 864000000, numberSeats = 2, price = 1000, carType = ''sports'',
     hasVollkasko = False, freeKilometers = 50\<rparr>"

definition offer_c :: Offer where
  "offer_c = \<lparr>ID = ''c'', data = ''CCCC'', mostSpecificRegionID = 5, startDate = 0,
     endDate = 172800000, numberSeats = 5, price = 500, carType = ''family'',
     hasVollkasko = True, freeKilometers = 200\<rparr>"

text \<open>The store after one \<^verbatim>\<open>POST\<close> of the three offers, with no regions file.\<close>

definition example_state :: state where
  "example_state = snd (create_offers [offer_b, offer_a, offer_c] (initial_state None))"

text \<open>The same offers posted in another order.\<close>

definition permuted_state :: state where
  "permuted_state = snd (create_offers [offer_c, offer_b, offer_a] (initial_state None))"

text \<open>
  A query for region 5 and five days within the first ten days, cheapest first, two
  offers per page, with no optional filter.
\<close>

definition example_query :: query where
  "example_query = \<lparr>regionID = 5, timeRangeStart = 0, timeRangeEnd = 864000000,
     numberDays = 5, sortOrder = ''price-asc'', page = 1, pageSize = 2,
     priceRangeWidth = 100, minFreeKilometerWidth = 50, minNumberSeats = None,
     minPrice = None, maxPrice = None, carType_param = None, onlyVollkasko = None,
     minFreeKilometer = None\<rparr>"

definition descending_query :: query where
  "descending_query = example_query\<lparr>sortOrder := ''price-desc'', pageSize := 3\<rparr>"

definition wide_query :: query where
  "wide_query = example_query\<lparr>pageSize := 3\<rparr>"

definition negative_page_query :: query where
  "negative_page_query = example_query\<lparr>page := - 1, pageSize := 1\<rparr>"

definition negative_size_query :: query where
  "negative_size_query = example_query\<lparr>page := 1, pageSize := - 1\<rparr>"

section \<open>The response and the state of a search\<close>

lemma get_offers_response:
  "fst (get_offers q s) =
     \<lparr>offers = map search_result_offer (paginated_offers s q),
      priceRanges = [],
      carTypeCounts = \<lparr>small = 0, sports = 0, luxury = 0, family = 0\<rparr>,
      seatsCount = [],
      freeKilometerRange = [],
      vollkaskoCount = \<lparr>trueCount = 0, falseCount = 0\<rparr>\<rparr>"
  by (simp add: get_offers_def compute_aggregations_def)

lemma get_offers_state: "snd (get_offers q s) = s"
  by (simp add: get_offers_def compute_aggregations_def)

lemma paginated_offers_empty_db: "offers_db s = [] \<Longrightarrow> paginated_offers s q = []"
  by (simp add: paginated_offers_def sorted_offers_def filtered_offers_def py_sort_def
      py_slice_def)

text \<open>
  C10. Whatever the store holds and whatever the query asks, the facet summaries of the
  response are constants: the price ranges, the seat counts and the free-kilometre ranges
  are empty lists, the four car-type counts are zero, and both Vollkasko counts are zero.
\<close>

theorem facets_constant:
  "priceRanges (fst (get_offers q s)) = [] \<and>
   seatsCount (fst (get_offers q s)) = [] \<and>
   freeKilometerRange (fst (get_offers q s)) = [] \<and>
   carTypeCounts (fst (get_offers q s)) = \<lparr>small = 0, sports = 0, luxury = 0, family = 0\<rparr> \<and>
   vollkaskoCount (fst (get_offers q s)) = \<lparr>trueCount = 0, falseCount = 0\<rparr>"
  by (simp add: get_offers_response)

text \<open>
  C8. After \<^verbatim>\<open>delete_offers\<close> the store is empty, a search with any query returns an empty
  page with empty or all-zero facets, and a second \<^verbatim>\<open>delete_offers\<close> leaves the state as
  the first one left it.
\<close>

theorem search_after_delete_offers:
  "offers_db (snd (delete_offers s)) = [] \<and>
   fst (get_offers q (snd (delete_offers s))) =
     \<lparr>offers = [], priceRanges = [],
      carTypeCounts = \<lparr>small = 0, sports = 0, luxury = 0, family = 0\<rparr>,
      seatsCount = [], freeKilometerRange = [],
      vollkaskoCount = \<lparr>trueCount = 0, falseCount = 0\<rparr>\<rparr> \<and>
   snd (delete_offers (snd (delete_offers s))) = snd (delete_offers s)"
  by (simp add: get_offers_response paginated_offers_empty_db delete_offers_def)

text \<open>
  C9. A search leaves the state (the offer store and the regions data) as it found it, so
  a search repeated after any other search, on the same store and with the same query,
  returns the same response.
\<close>

theorem get_offers_frame:
  "snd (get_offers q s) = s \<and>
   fst (get_offers q (snd (get_offers q s))) = fst (get_offers q s) \<and>
   fst (get_offers q (snd (get_offers q' s))) = fst (get_offers q s)"
  by (simp add: get_offers_state)

section \<open>The example store, evaluated\<close>

lemmas example_defs =
  example_state_def permuted_state_def example_query_def descending_query_def
  wide_query_def negative_page_query_def negative_size_query_def create_offers_def initial_state_def
  offer_a_def offer_b_def offer_c_def

lemma example_sorted_offers:
  "sorted_offers example_state example_query = [offer_c, offer_a, offer_b]"
  by (simp add: sorted_offers_def filtered_offers_def matches_filters_def py_sort_def
      sort_key_of_def less_eq_prod_def example_defs)

lemma example_sorted_offers_page:
  "sorted_offers example_state (example_query\<lparr>page := p\<rparr>) = [offer_c, offer_a, offer_b]"
  by (simp add: sorted_offers_def filtered_offers_def matches_filters_def py_sort_def
      sort_key_of_def less_eq_prod_def example_defs)

lemma descending_sorted_offers:
  "sorted_offers example_state descending_query = [offer_b, offer_a, offer_c]"
  by (simp add: sorted_offers_def filtered_offers_def matches_filters_def py_sort_def
      sort_key_of_def less_eq_prod_def example_defs)

lemma negative_page_sorted_offers:
  "sorted_offers example_state negative_page_query = [offer_c, offer_a, offer_b]"
  by (simp add: sorted_offers_def filtered_offers_def matches_filters_def py_sort_def
      sort_key_of_def less_eq_prod_def example_defs)

lemma negative_size_sorted_offers:
  "sorted_offers example_state negative_size_query = [offer_c, offer_a, offer_b]"
  by (simp add: sorted_offers_def filtered_offers_def matches_filters_def py_sort_def
      sort_key_of_def less_eq_prod_def example_defs)

section \<open>Pagination\<close>

lemma py_slice_nonneg:
  assumes "0 \<le> a" "a \<le> b"
  shows "py_slice xs a b = take (nat (b - a)) (drop (nat a) xs)"
proof -
  let ?n = "int (length xs)"
  have lo: "adjust_index ?n a = min a ?n" and hi: "adjust_index ?n b = min b ?n"
    using assms by (simp_all add: adjust_index_def)
  show ?thesis
  proof (cases "a \<le> ?n")
    case True
    have "take (nat (min b ?n - a)) (drop (nat a) xs) = take (nat (b - a)) (drop (nat a) xs)"
    proof (cases "b \<le> ?n")
      case True then show ?thesis by (simp add: min_def)
    next
      case False
      with \<open>a \<le> ?n\<close> assms have "length (drop (nat a) xs) \<le> nat (min b ?n - a)"
        and "length (drop (nat a) xs) \<le> nat (b - a)"
        by (simp_all add: min_def)
      then show ?thesis by simp
    qed
    with True show ?thesis by (simp add: py_slice_def lo hi Let_def min_def)
  next
    case False
    with assms have "drop (nat (min a ?n)) xs = []" by (simp add: min_def)
    then show ?thesis using False assms by (simp add: py_slice_def Let_def lo)
  qed
qed

lemma py_slice_backwards:
  assumes "b \<le> a" "0 \<le> b \<or> a < 0"
  shows "py_slice xs a b = []"
proof -
  have "adjust_index (int (length xs)) b \<le> adjust_index (int (length xs)) a"
    using assms by (auto simp add: adjust_index_def)
  then show ?thesis by (simp add: py_slice_def Let_def)
qed

lemma paginated_offers_positive:
  assumes "1 \<le> page q" "1 \<le> pageSize q"
  shows "paginated_offers s q =
    take (nat (pageSize q)) (drop (nat ((page q - 1) * pageSize q)) (sorted_offers s q))"
proof -
  have "0 \<le> (page q - 1) * pageSize q" using assms by simp
  then show ?thesis
    using assms by (simp add: paginated_offers_def Let_def py_slice_nonneg)
qed

lemma paginated_offers_zero:
  assumes "page q = 0 \<or> pageSize q = 0"
  shows "paginated_offers s q = []"
  using assms
  by (auto simp add: paginated_offers_def Let_def py_slice_def adjust_index_def)

lemma paginated_offers_negative_size:
  assumes "pageSize q < 0" "page q \<noteq> 1"
  shows "paginated_offers s q = []"
proof -
  let ?a = "(page q - 1) * pageSize q"
  have "0 \<le> ?a + pageSize q \<or> ?a < 0"
  proof (cases "2 \<le> page q")
    case True
    with assms(1) have "?a < 0" by (intro mult_pos_neg) simp_all
    then show ?thesis ..
  next
    case False
    with assms(2) have "page q \<le> 0" by simp
    with assms(1) have "0 \<le> page q * pageSize q" by (intro mult_nonpos_nonpos) simp_all
    then have "0 \<le> ?a + pageSize q" by (simp add: algebra_simps)
    then show ?thesis ..
  qed
  moreover have "?a + pageSize q \<le> ?a" using assms(1) by simp
  ultimately show ?thesis
    by (simp add: paginated_offers_def Let_def py_slice_backwards)
qed

lemma sorted_offers_page: "sorted_offers s (q\<lparr>page := p\<rparr>) = sorted_offers s q"
  by (simp add: sorted_offers_def filtered_offers_def mandatory_filters_of_def
      optional_filters_of_def)

lemma pages_concat:
  fixes xs :: "'a list"
  shows "concat (map (\<lambda>p. take n (drop ((p - 1) * n) xs)) [1..<Suc k]) = take (k * n) xs"
proof (induction k)
  case 0
  then show ?case by simp
next
  case (Suc k)
  have "take (k * n + n) xs = take (k * n) xs @ take n (drop (k * n) xs)"
    by (rule take_add)
  with Suc show ?case by (simp add: add.commute)
qed

lemma page_offers:
  assumes "0 < pageSize q" "0 < p"
  shows "offers (fst (get_offers (q\<lparr>page := int p\<rparr>) s)) =
    take (nat (pageSize q)) (drop ((p - 1) * nat (pageSize q))
      (map search_result_offer (sorted_offers s q)))"
proof -
  have "nat ((int p - 1) * pageSize q) = (p - 1) * nat (pageSize q)"
    using assms by (simp add: nat_mult_distrib of_nat_diff)
  then show ?thesis
    using assms
    by (simp add: get_offers_response paginated_offers_positive
        sorted_offers_page take_map drop_map)
qed

text \<open>
  C5, as the code has it. For a page number and a page size that are both at least 1, the
  page holds exactly the elements of the sorted list at the zero-based offsets
  \<open>(page - 1) * pageSize\<close> through \<open>(page - 1) * pageSize + pageSize - 1\<close> that exist, so
  a page beyond the end is empty. The page is also empty when the page number or the page
  size is 0, and when the page size is negative and the page number is not 1. The
  pagination is a slice, which has no failing branch.
\<close>

theorem pagination_slice:
  "(1 \<le> page q \<and> 1 \<le> pageSize q \<longrightarrow>
      offers (fst (get_offers q s)) =
        map search_result_offer
          (take (nat (pageSize q)) (drop (nat ((page q - 1) * pageSize q)) (sorted_offers s q))) \<and>
      length (offers (fst (get_offers q s))) =
        min (nat (pageSize q)) (length (sorted_offers s q) - nat ((page q - 1) * pageSize q)) \<and>
      (\<forall>i. i < length (offers (fst (get_offers q s))) \<longrightarrow>
         offers (fst (get_offers q s)) ! i =
           search_result_offer (sorted_offers s q ! (nat ((page q - 1) * pageSize q) + i)))) \<and>
   (1 \<le> page q \<and> 1 \<le> pageSize q \<and>
      int (length (sorted_offers s q)) \<le> (page q - 1) * pageSize q \<longrightarrow>
      offers (fst (get_offers q s)) = []) \<and>
   (page q = 0 \<or> pageSize q = 0 \<or> (pageSize q < 0 \<and> page q \<noteq> 1) \<longrightarrow>
      offers (fst (get_offers q s)) = [])"
proof (intro conjI impI allI)
  assume pos: "1 \<le> page q \<and> 1 \<le> pageSize q"
  then show slice: "offers (fst (get_offers q s)) =
      map search_result_offer
        (take (nat (pageSize q)) (drop (nat ((page q - 1) * pageSize q)) (sorted_offers s q)))"
    by (simp add: get_offers_response paginated_offers_positive)
  then show "length (offers (fst (get_offers q s))) =
      min (nat (pageSize q)) (length (sorted_offers s q) - nat ((page q - 1) * pageSize q))"
    by (simp add: min.commute)
  fix i
  assume "i < length (offers (fst (get_offers q s)))"
  with slice have "i < nat (pageSize q) \<and>
      i < length (sorted_offers s q) - nat ((page q - 1) * pageSize q)"
    by simp
  then have "i < nat (pageSize q)"
    and "nat ((page q - 1) * pageSize q) + i < length (sorted_offers s q)"
    by arith+
  with slice show "offers (fst (get_offers q s)) ! i =
      search_result_offer (sorted_offers s q ! (nat ((page q - 1) * pageSize q) + i))"
    by (simp add: nth_drop)
next
  assume beyond: "1 \<le> page q \<and> 1 \<le> pageSize q \<and>
    int (length (sorted_offers s q)) \<le> (page q - 1) * pageSize q"
  then have "length (sorted_offers s q) \<le> nat ((page q - 1) * pageSize q)"
    by linarith
  with beyond show "offers (fst (get_offers q s)) = []"
    by (simp add: get_offers_response paginated_offers_positive)
next
  assume "page q = 0 \<or> pageSize q = 0 \<or> (pageSize q < 0 \<and> page q \<noteq> 1)"
  then have "paginated_offers s q = []"
    using paginated_offers_zero [of q s] paginated_offers_negative_size [of q s] by blast
  then show "offers (fst (get_offers q s)) = []"
    by (simp add: get_offers_response)
qed

text \<open>
  On the example store, the second page of size 2 holds the third offer, the third page
  is empty, and page 0 is empty.
\<close>

theorem pagination_slice_witness:
  "1 \<le> page (example_query\<lparr>page := 2\<rparr>) \<and> 1 \<le> pageSize (example_query\<lparr>page := 2\<rparr>) \<and>
   offers (fst (get_offers (example_query\<lparr>page := 2\<rparr>) example_state)) =
     [\<lparr>sr_ID = ''b'', sr_data = ''BBBB''\<rparr>] \<and>
   int (length (sorted_offers example_state (example_query\<lparr>page := 3\<rparr>))) \<le>
     (page (example_query\<lparr>page := 3\<rparr>) - 1) * pageSize (example_query\<lparr>page := 3\<rparr>) \<and>
   offers (fst (get_offers (example_query\<lparr>page := 3\<rparr>) example_state)) = [] \<and>
   page (example_query\<lparr>page := 0\<rparr>) = 0 \<and>
   offers (fst (get_offers (example_query\<lparr>page := 0\<rparr>) example_state)) = []"
proof -
  let ?two = "example_query\<lparr>page := 2\<rparr>"
  let ?three = "example_query\<lparr>page := 3\<rparr>"
  let ?zero = "example_query\<lparr>page := 0\<rparr>"
  have two: "1 \<le> page ?two \<and> 1 \<le> pageSize ?two"
    by (simp add: example_query_def)
  have three: "1 \<le> page ?three \<and> 1 \<le> pageSize ?three \<and>
      int (length (sorted_offers example_state ?three)) \<le> (page ?three - 1) * pageSize ?three"
    by (simp add: example_sorted_offers_page) (simp add: example_query_def)
  have zero: "page ?zero = 0"
    by simp
  have "offers (fst (get_offers ?two example_state)) =
      map search_result_offer
        (take (nat (pageSize ?two)) (drop (nat ((page ?two - 1) * pageSize ?two))
          (sorted_offers example_state ?two)))"
    using pagination_slice [of ?two example_state] two by blast
  also have "\<dots> = [\<lparr>sr_ID = ''b'', sr_data = ''BBBB''\<rparr>]"
    by (simp add: example_sorted_offers_page)
      (simp add: example_query_def search_result_offer_def offer_b_def)
  finally have "offers (fst (get_offers ?two example_state)) =
      [\<lparr>sr_ID = ''b'', sr_data = ''BBBB''\<rparr>]" .
  moreover have "offers (fst (get_offers ?three example_state)) = []"
    using pagination_slice [of ?three example_state] three by blast
  moreover have "offers (fst (get_offers ?zero example_state)) = []"
    using pagination_slice [of ?zero example_state] zero by blast
  ultimately show ?thesis
    using two three zero by blast
qed

text \<open>
  C5 as stated fails for a non-positive page number or page size: Python counts a negative
  slice index from the end of the list. On the example store, page \<open>-1\<close> of size 1 is the
  slice \<^verbatim>\<open>[-2:-1]\<close>, which holds the second offer, and page 1 of size \<open>-1\<close> is the slice
  \<^verbatim>\<open>[0:-1]\<close>, which holds the first two.
\<close>

theorem pagination_nonpositive_counterexample:
  "page negative_page_query \<le> 0 \<and>
   offers (fst (get_offers negative_page_query example_state)) =
     [\<lparr>sr_ID = ''a'', sr_data = ''AAAA''\<rparr>] \<and>
   pageSize negative_size_query \<le> 0 \<and>
   offers (fst (get_offers negative_size_query example_state)) =
     [\<lparr>sr_ID = ''c'', sr_data = ''CCCC''\<rparr>, \<lparr>sr_ID = ''a'', sr_data = ''AAAA''\<rparr>]"
  by (simp add: get_offers_response paginated_offers_def py_slice_def adjust_index_def
      negative_page_sorted_offers negative_size_sorted_offers)
    (simp add: example_defs search_result_offer_def)

text \<open>
  C6. For a positive page size, the pages 1, 2, ..., k of a search over the same store,
  one after the other, are the first \<open>k * pageSize\<close> entries of the sorted filtered list:
  no entry is repeated and none is skipped. Once \<open>k * pageSize\<close> reaches the length of
  the list, the pages together are the whole list.
\<close>

theorem pages_partition:
  assumes "0 < pageSize q"
  shows "concat (map (\<lambda>p. offers (fst (get_offers (q\<lparr>page := int p\<rparr>) s))) [1..<Suc k]) =
           take (k * nat (pageSize q)) (map search_result_offer (sorted_offers s q)) \<and>
         (length (sorted_offers s q) \<le> k * nat (pageSize q) \<longrightarrow>
            concat (map (\<lambda>p. offers (fst (get_offers (q\<lparr>page := int p\<rparr>) s))) [1..<Suc k]) =
              map search_result_offer (sorted_offers s q))"
proof -
  have "map (\<lambda>p. offers (fst (get_offers (q\<lparr>page := int p\<rparr>) s))) [1..<Suc k] =
        map (\<lambda>p. take (nat (pageSize q)) (drop ((p - 1) * nat (pageSize q))
              (map search_result_offer (sorted_offers s q)))) [1..<Suc k]"
    using assms by (intro map_cong refl page_offers) auto
  then show ?thesis
    by (simp only: pages_concat) simp
qed

text \<open>On the example store, pages 1 and 2 of size 2 are the three offers, each once.\<close>

theorem pages_partition_witness:
  "0 < pageSize example_query \<and>
   length (sorted_offers example_state example_query) \<le> 2 * nat (pageSize example_query) \<and>
   offers (fst (get_offers (example_query\<lparr>page := 1\<rparr>) example_state)) @
   offers (fst (get_offers (example_query\<lparr>page := 2\<rparr>) example_state)) =
     [\<lparr>sr_ID = ''c'', sr_data = ''CCCC''\<rparr>, \<lparr>sr_ID = ''a'', sr_data = ''AAAA''\<rparr>,
      \<lparr>sr_ID = ''b'', sr_data = ''BBBB''\<rparr>]"
proof -
  have size: "0 < pageSize example_query"
    by (simp add: example_query_def)
  have len: "length (sorted_offers example_state example_query) \<le>
      2 * nat (pageSize example_query)"
    by (simp add: example_sorted_offers) (simp add: example_query_def)
  have "concat (map (\<lambda>p. offers (fst (get_offers (example_query\<lparr>page := int p\<rparr>)
      example_state))) [1..<Suc 2]) =
      map search_result_offer (sorted_offers example_state example_query)"
    using pages_partition [OF size, of example_state 2] len by blast
  moreover have "[1..<Suc 2] = [1, 2]"
    by (simp add: upt_rec)
  ultimately have "offers (fst (get_offers (example_query\<lparr>page := 1\<rparr>) example_state)) @
      offers (fst (get_offers (example_query\<lparr>page := 2\<rparr>) example_state)) =
      map search_result_offer [offer_c, offer_a, offer_b]"
    by (simp add: example_sorted_offers)
  then show ?thesis
    using size len
    by (simp add: search_result_offer_def offer_a_def offer_b_def offer_c_def)
qed

section \<open>Sorting\<close>

lemma py_sort_sorted_wrt:
  "sorted_wrt (\<lambda>a b. if r then f b \<le> f a else f a \<le> f b) (py_sort f r xs)"
proof (cases r)
  case True
  have "sorted_wrt (\<lambda>a b. f a \<le> f b) (sort_key f (rev xs))"
    using sorted_sort_key [of f "rev xs"] by (simp add: sorted_map)
  with True show ?thesis by (simp add: py_sort_def sorted_wrt_rev)
next
  case False
  have "sorted_wrt (\<lambda>a b. f a \<le> f b) (sort_key f xs)"
    using sorted_sort_key [of f xs] by (simp add: sorted_map)
  with False show ?thesis by (simp add: py_sort_def)
qed

lemma py_slice_sorted_wrt: "sorted_wrt P xs \<Longrightarrow> sorted_wrt P (py_slice xs a b)"
  by (simp add: py_slice_def Let_def sorted_wrt_take sorted_wrt_drop)

lemma paginated_offers_sorted_wrt:
  "sorted_wrt (\<lambda>a b. if sortOrder q = ''price-desc'' then sort_key_of b \<le> sort_key_of a
                       else sort_key_of a \<le> sort_key_of b) (paginated_offers s q)"
proof -
  have "sorted_wrt (\<lambda>a b. if sortOrder q = ''price-desc'' then sort_key_of b \<le> sort_key_of a
                       else sort_key_of a \<le> sort_key_of b) (sorted_offers s q)"
    using py_sort_sorted_wrt [of "sortOrder q = ''price-desc''" sort_key_of "filtered_offers s q"]
    by (cases "sortOrder q = ''price-desc''") (simp_all add: sorted_offers_def)
  then show ?thesis
    unfolding paginated_offers_def Let_def by (rule py_slice_sorted_wrt)
qed

lemma sort_key_of_le:
  "sort_key_of a \<le> sort_key_of b \<longleftrightarrow>
     price a < price b \<or> (price a = price b \<and> ID a \<le> ID b)"
  by (auto simp add: sort_key_of_def less_eq_prod_def)

lemma paginated_offers_adjacent:
  assumes "Suc i < length (paginated_offers s q)"
  shows "if sortOrder q = ''price-desc''
         then sort_key_of (paginated_offers s q ! Suc i) \<le> sort_key_of (paginated_offers s q ! i)
         else sort_key_of (paginated_offers s q ! i) \<le> sort_key_of (paginated_offers s q ! Suc i)"
  using sorted_wrt_nth_less [OF paginated_offers_sorted_wrt [of q s] _ assms, of i]
  by (simp split: if_splits)

text \<open>The keys of the sorted list are the sorted keys: they depend on the multiset only.\<close>

lemma map_key_py_sort:
  "map f (py_sort f r xs) = (if r then rev (sort (map f xs)) else sort (map f xs))"
proof -
  have asc: "sort (map f ys) = map f (sort_key f ys)" for ys
    by (rule properties_for_sort) simp_all
  have "sort (map f (rev xs)) = sort (map f xs)"
    by (rule properties_for_sort) simp_all
  with asc [of "rev xs"] asc [of xs] show ?thesis
    by (simp add: py_sort_def rev_map)
qed

lemma py_sort_mset_keys:
  assumes "mset xs = mset ys"
  shows "map f (py_sort f r xs) = map f (py_sort f r ys)"
proof -
  have "mset (map f xs) = mset (map f ys)" using assms by (metis mset_map)
  then have "sort (map f xs) = sort (map f ys)"
    by (intro properties_for_sort) simp_all
  then show ?thesis by (simp add: map_key_py_sort)
qed

lemma py_sort_mset_inj:
  assumes "mset xs = mset ys" "inj_on f (set xs)"
  shows "py_sort f r xs = py_sort f r ys"
proof -
  have "sort_key f xs = sort_key f ys"
    using assms by (rule sort_key_eq_sort_key)
  moreover have "sort_key f (rev xs) = sort_key f (rev ys)"
    using assms by (intro sort_key_eq_sort_key) simp_all
  ultimately show ?thesis by (simp add: py_sort_def)
qed

lemma filtered_offers_mset:
  "mset (offers_db s') = mset (offers_db s) \<Longrightarrow>
   mset (filtered_offers s' q) = mset (filtered_offers s q)"
  by (simp add: filtered_offers_def)

lemma sorted_offers_keys_perm:
  assumes "mset (offers_db s') = mset (offers_db s)"
  shows "map sort_key_of (sorted_offers s' q) = map sort_key_of (sorted_offers s q)"
  unfolding sorted_offers_def Let_def
  by (rule py_sort_mset_keys) (rule filtered_offers_mset [OF assms])

lemma sorted_offers_perm:
  assumes "mset (offers_db s') = mset (offers_db s)" "inj_on ID (set (offers_db s))"
  shows "sorted_offers s' q = sorted_offers s q"
proof -
  have "inj_on ID (set (filtered_offers s q))"
    using assms(2) by (rule inj_on_subset) (auto simp add: filtered_offers_def)
  then have "inj_on sort_key_of (set (filtered_offers s q))"
    by (auto simp add: inj_on_def sort_key_of_def)
  moreover have "mset (filtered_offers s q) = mset (filtered_offers s' q)"
    using filtered_offers_mset [OF assms(1)] by simp
  ultimately have "py_sort sort_key_of r (filtered_offers s q) =
      py_sort sort_key_of r (filtered_offers s' q)" for r
    by (intro py_sort_mset_inj)
  then show ?thesis by (simp add: sorted_offers_def)
qed

lemma get_offers_perm:
  assumes "mset (offers_db s') = mset (offers_db s)" "inj_on ID (set (offers_db s))"
  shows "fst (get_offers q s') = fst (get_offers q s)"
  using sorted_offers_perm [OF assms]
  by (simp add: get_offers_response paginated_offers_def)

text \<open>
  C4. The returned page is the projection of \<open>paginated_offers\<close>. Under \<^verbatim>\<open>price-asc\<close>, any
  two adjacent entries \<open>a\<close>, \<open>b\<close> of it satisfy \<open>price a < price b\<close>, or
  \<open>price a = price b\<close> and \<open>ID a \<le> ID b\<close>; under \<^verbatim>\<open>price-desc\<close> both comparisons are
  reversed together. The order does not depend on the order of insertion: two stores holding
  the same offers give the same sequence of keys (price, identifier), and, when no two
  different stored offers share an identifier, the same response.
\<close>

theorem page_sorted:
  "(sortOrder q = ''price-asc'' \<longrightarrow>
      (\<forall>i. Suc i < length (paginated_offers s q) \<longrightarrow>
         price (paginated_offers s q ! i) < price (paginated_offers s q ! Suc i) \<or>
         (price (paginated_offers s q ! i) = price (paginated_offers s q ! Suc i) \<and>
          ID (paginated_offers s q ! i) \<le> ID (paginated_offers s q ! Suc i)))) \<and>
   (sortOrder q = ''price-desc'' \<longrightarrow>
      (\<forall>i. Suc i < length (paginated_offers s q) \<longrightarrow>
         price (paginated_offers s q ! Suc i) < price (paginated_offers s q ! i) \<or>
         (price (paginated_offers s q ! i) = price (paginated_offers s q ! Suc i) \<and>
          ID (paginated_offers s q ! Suc i) \<le> ID (paginated_offers s q ! i)))) \<and>
   offers (fst (get_offers q s)) = map search_result_offer (paginated_offers s q) \<and>
   (\<forall>s'::state. mset (offers_db s') = mset (offers_db s) \<longrightarrow>
      map sort_key_of (sorted_offers s' q) = map sort_key_of (sorted_offers s q)) \<and>
   (\<forall>s'::state. mset (offers_db s') = mset (offers_db s) \<and> inj_on ID (set (offers_db s)) \<longrightarrow>
      fst (get_offers q s') = fst (get_offers q s))"
proof (intro conjI impI allI)
  fix i
  assume asc: "sortOrder q = ''price-asc''" and i: "Suc i < length (paginated_offers s q)"
  from asc have "sortOrder q \<noteq> ''price-desc''"
    by simp
  with paginated_offers_adjacent [OF i]
  have "sort_key_of (paginated_offers s q ! i) \<le> sort_key_of (paginated_offers s q ! Suc i)"
    by simp
  then show "price (paginated_offers s q ! i) < price (paginated_offers s q ! Suc i) \<or>
      (price (paginated_offers s q ! i) = price (paginated_offers s q ! Suc i) \<and>
       ID (paginated_offers s q ! i) \<le> ID (paginated_offers s q ! Suc i))"
    by (simp only: sort_key_of_le)
next
  fix i
  assume desc: "sortOrder q = ''price-desc''" and i: "Suc i < length (paginated_offers s q)"
  with paginated_offers_adjacent [OF i]
  have "sort_key_of (paginated_offers s q ! Suc i) \<le> sort_key_of (paginated_offers s q ! i)"
    by simp
  then have "price (paginated_offers s q ! Suc i) < price (paginated_offers s q ! i) \<or>
      (price (paginated_offers s q ! Suc i) = price (paginated_offers s q ! i) \<and>
       ID (paginated_offers s q ! Suc i) \<le> ID (paginated_offers s q ! i))"
    by (simp only: sort_key_of_le)
  then show "price (paginated_offers s q ! Suc i) < price (paginated_offers s q ! i) \<or>
      (price (paginated_offers s q ! i) = price (paginated_offers s q ! Suc i) \<and>
       ID (paginated_offers s q ! Suc i) \<le> ID (paginated_offers s q ! i))"
    by metis
next
  show "offers (fst (get_offers q s)) = map search_result_offer (paginated_offers s q)"
    by (simp add: get_offers_response)
next
  fix s' :: state
  assume "mset (offers_db s') = mset (offers_db s)"
  then show "map sort_key_of (sorted_offers s' q) = map sort_key_of (sorted_offers s q)"
    by (rule sorted_offers_keys_perm)
next
  fix s' :: state
  assume perm: "mset (offers_db s') = mset (offers_db s) \<and> inj_on ID (set (offers_db s))"
  show "fst (get_offers q s') = fst (get_offers q s)"
    by (rule get_offers_perm [OF conjunct1 [OF perm] conjunct2 [OF perm]])
qed

lemma wide_paginated_offers:
  "paginated_offers example_state wide_query = [offer_c, offer_a, offer_b]"
  by (simp add: paginated_offers_def sorted_offers_def filtered_offers_def
      matches_filters_def py_sort_def py_slice_def adjust_index_def sort_key_of_def
      less_eq_prod_def example_defs)

lemma descending_paginated_offers:
  "paginated_offers example_state descending_query = [offer_b, offer_a, offer_c]"
  by (simp add: paginated_offers_def sorted_offers_def filtered_offers_def
      matches_filters_def py_sort_def py_slice_def adjust_index_def sort_key_of_def
      less_eq_prod_def example_defs)

text \<open>
  On the example store: ascending, the second and third entries of the page have the same
  price and ascending identifiers; descending, the first and second entries have the same
  price and descending identifiers; and the store filled in another order gives the same
  response.
\<close>

theorem page_sorted_witness:
  "sortOrder wide_query = ''price-asc'' \<and>
   Suc 1 < length (paginated_offers example_state wide_query) \<and>
   price (paginated_offers example_state wide_query ! 1) =
     price (paginated_offers example_state wide_query ! Suc 1) \<and>
   ID (paginated_offers example_state wide_query ! 1) \<le>
     ID (paginated_offers example_state wide_query ! Suc 1) \<and>
   sortOrder descending_query = ''price-desc'' \<and>
   Suc 0 < length (paginated_offers example_state descending_query) \<and>
   price (paginated_offers example_state descending_query ! 0) =
     price (paginated_offers example_state descending_query ! Suc 0) \<and>
   ID (paginated_offers example_state descending_query ! Suc 0) \<le>
     ID (paginated_offers example_state descending_query ! 0) \<and>
   mset (offers_db permuted_state) = mset (offers_db example_state) \<and>
   inj_on ID (set (offers_db example_state)) \<and>
   offers_db permuted_state \<noteq> offers_db example_state \<and>
   fst (get_offers wide_query permuted_state) = fst (get_offers wide_query example_state)"
proof -
  have asc: "sortOrder wide_query = ''price-asc''"
    by (simp add: wide_query_def example_query_def)
  have asc_len: "Suc 1 < length (paginated_offers example_state wide_query)"
    by (simp add: wide_paginated_offers)
  have asc_price: "\<not> price (paginated_offers example_state wide_query ! 1) <
      price (paginated_offers example_state wide_query ! Suc 1)"
    by (simp add: wide_paginated_offers offer_a_def offer_b_def)
  have desc: "sortOrder descending_query = ''price-desc''"
    by (simp add: descending_query_def example_query_def)
  have desc_len: "Suc 0 < length (paginated_offers example_state descending_query)"
    by (simp add: descending_paginated_offers)
  have desc_price: "\<not> price (paginated_offers example_state descending_query ! Suc 0) <
      price (paginated_offers example_state descending_query ! 0)"
    by (simp add: descending_paginated_offers offer_a_def offer_b_def)
  have perm: "mset (offers_db permuted_state) = mset (offers_db example_state)"
    by (simp add: example_state_def permuted_state_def create_offers_def initial_state_def
        add_mset_commute)
  have inj: "inj_on ID (set (offers_db example_state))"
    by (simp add: example_state_def create_offers_def initial_state_def
        offer_a_def offer_b_def offer_c_def)
  have other: "offers_db permuted_state \<noteq> offers_db example_state"
    by (simp add: example_state_def permuted_state_def create_offers_def initial_state_def
        offer_a_def offer_b_def offer_c_def)
  note sorted1 = page_sorted [of wide_query example_state]
  note sorted2 = page_sorted [of descending_query example_state]
  from sorted1 asc asc_len asc_price
  have "price (paginated_offers example_state wide_query ! 1) =
      price (paginated_offers example_state wide_query ! Suc 1) \<and>
    ID (paginated_offers example_state wide_query ! 1) \<le>
      ID (paginated_offers example_state wide_query ! Suc 1)"
    by blast
  moreover from sorted2 desc desc_len desc_price
  have "price (paginated_offers example_state descending_query ! 0) =
      price (paginated_offers example_state descending_query ! Suc 0) \<and>
    ID (paginated_offers example_state descending_query ! Suc 0) \<le>
      ID (paginated_offers example_state descending_query ! 0)"
    by blast
  moreover from sorted1 perm inj
  have "fst (get_offers wide_query permuted_state) = fst (get_offers wide_query example_state)"
    by blast
  ultimately show ?thesis
    using asc asc_len desc desc_len perm inj other by blast
qed

section \<open>The placeholders against the documented filters\<close>

text \<open>
  C1. The store was started without a regions file, so no region has a descendant. The
  query asks for region 5 and \<open>offer_b\<close> lies in region 2, yet \<^verbatim>\<open>matches_filters\<close> accepts it
  and the search returns it (on the second page).
\<close>

theorem matches_filters_unrelated_region:
  "regions_data example_state = JObj [] \<and>
   regionID example_query = 5 \<and> mostSpecificRegionID offer_b = 2 \<and>
   offer_b \<in> set (offers_db example_state) \<and>
   matches_filters offer_b (mandatory_filters_of example_query)
     (optional_filters_of example_query) \<and>
   offers (fst (get_offers (example_query\<lparr>page := 2\<rparr>) example_state)) =
     [\<lparr>sr_ID = ''b'', sr_data = ''BBBB''\<rparr>]"
  by (simp add: get_offers_response paginated_offers_def py_slice_def adjust_index_def
      example_sorted_offers_page matches_filters_def)
    (simp add: example_defs search_result_offer_def)

text \<open>
  C2. \<open>offer_c\<close> is available for two days (172800000 ms) and the query asks for five days
  (432000000 ms) within the first ten: the overlap is too short, yet \<^verbatim>\<open>matches_filters\<close>
  accepts the offer and the search returns it first.
\<close>

theorem matches_filters_short_availability:
  "min (endDate offer_c) (timeRangeEnd example_query) -
     max (startDate offer_c) (timeRangeStart example_query) = 172800000 \<and>
   numberDays example_query * 86400000 = 432000000 \<and>
   offer_c \<in> set (offers_db example_state) \<and>
   matches_filters offer_c (mandatory_filters_of example_query)
     (optional_filters_of example_query) \<and>
   offers (fst (get_offers example_query example_state)) =
     [\<lparr>sr_ID = ''c'', sr_data = ''CCCC''\<rparr>, \<lparr>sr_ID = ''a'', sr_data = ''AAAA''\<rparr>]"
  by (simp add: get_offers_response paginated_offers_def py_slice_def adjust_index_def
      example_sorted_offers matches_filters_def)
    (simp add: example_defs search_result_offer_def)

text \<open>
  C3. \<open>offer_a\<close> lies in the queried region, fits the requested five days and the query has
  no optional filter, so it belongs to the scope of every facet; it is a small car with
  four seats and Vollkasko. The response counts no small car, no Vollkasko offer and no
  seat value.
\<close>

theorem facets_ignore_offers:
  "offer_a \<in> set (filtered_offers example_state example_query) \<and>
   mostSpecificRegionID offer_a = regionID example_query \<and>
   numberDays example_query * 86400000 \<le>
     min (endDate offer_a) (timeRangeEnd example_query) -
       max (startDate offer_a) (timeRangeStart example_query) \<and>
   optional_filters_of example_query = [] \<and>
   carType offer_a = ''small'' \<and> hasVollkasko offer_a \<and>
   small (carTypeCounts (fst (get_offers example_query example_state))) = 0 \<and>
   trueCount (vollkaskoCount (fst (get_offers example_query example_state))) = 0 \<and>
   seatsCount (fst (get_offers example_query example_state)) = []"
  by (simp add: get_offers_response filtered_offers_def matches_filters_def
      optional_filters_of_def)
    (simp add: example_defs)

text \<open>
  C7. With the positive bucket width 100, the price 1000 of \<open>offer_a\<close>, which is in the
  scope of the price facet, lies in the bucket from 1000 to 1100; the response has no
  price bucket at all.
\<close>

theorem price_buckets_missing:
  "0 < priceRangeWidth example_query \<and>
   offer_a \<in> set (filtered_offers example_state example_query) \<and>
   mostSpecificRegionID offer_a = regionID example_query \<and>
   numberDays example_query * 86400000 \<le>
     min (endDate offer_a) (timeRangeEnd example_query) -
       max (startDate offer_a) (timeRangeStart example_query) \<and>
   optional_filters_of example_query = [] \<and>
   price offer_a = 1000 \<and>
   priceRanges (fst (get_offers example_query example_state)) = []"
  by (simp add: get_offers_response filtered_offers_def matches_filters_def
      optional_filters_of_def)
    (simp add: example_defs)

end
